theory Spec2Isabelle
  imports Complex_Main
begin

section \<open>JavaScript values\<close>

text \<open>
  The formula engine is JavaScript. Its values are modelled by a datatype, its numbers by
  reals extended with the two infinities and NaN. The two zeros of a double are one number
  here. Strings are lists of characters, a character
  being one of the 256 code units below \<open>U+0100\<close>; every letter, digit and sign the
  engine looks for is among them.
\<close>

datatype jsnum = Fin real | PosInf | NegInf | NaN

datatype jsval =
    JUndefined
  | JNull
  | JBool bool
  | JNum jsnum
  | JStr string
  | JArr "jsnum list"
  | JObject string

text \<open>
  \<open>JArr\<close> is the array of numbers that \<open>getRangeValues\<close> returns. \<open>JObject s\<close> is
  any other object, of which the model keeps the text \<open>s\<close> that \<open>String\<close> gives it: an
  object enters a computation of the engine through that text only.
\<close>

datatype exn = TypeError | Error string

text \<open>
  A computation that may throw returns \<open>exn + 'a\<close>: \<open>Inl\<close> is the exception thrown,
  \<open>Inr\<close> the value returned.
\<close>

definition bindE :: "exn + 'a \<Rightarrow> ('a \<Rightarrow> exn + 'b) \<Rightarrow> exn + 'b" where
  "bindE m f = (case m of Inl e \<Rightarrow> Inl e | Inr v \<Rightarrow> f v)"

subsection \<open>Arithmetic on numbers\<close>

text \<open>
  An operation on doubles returns the double nearest to the exact result. An integer of
  magnitude up to \<open>2\<^sup>5\<^sup>3\<close> is a double, so a result that is such an integer is exact. What
  any other result is rounded to, overflow to an infinity included, is left unspecified:
  addition is not associative here, as it is not on doubles.
\<close>

definition is_integer :: "real \<Rightarrow> bool" where
  "is_integer y = (y = of_int \<lfloor>y\<rfloor>)"

definition nearest_double :: "real \<Rightarrow> jsnum" where
  "nearest_double x = undefined"

definition round_to_double :: "real \<Rightarrow> jsnum" where
  "round_to_double x = (if is_integer x \<and> \<bar>x\<bar> \<le> 2 ^ 53 then Fin x else nearest_double x)"

definition isNaN_num :: "jsnum \<Rightarrow> bool" where
  "isNaN_num n = (n = NaN)"

fun num_sign :: "jsnum \<Rightarrow> int" where
  "num_sign (Fin x) = (if x < 0 then -1 else if x = 0 then 0 else 1)"
| "num_sign PosInf = 1"
| "num_sign NegInf = -1"
| "num_sign NaN = 0"

fun num_neg :: "jsnum \<Rightarrow> jsnum" where
  "num_neg (Fin x) = Fin (- x)"
| "num_neg PosInf = NegInf"
| "num_neg NegInf = PosInf"
| "num_neg NaN = NaN"

fun num_add :: "jsnum \<Rightarrow> jsnum \<Rightarrow> jsnum" where
  "num_add NaN _ = NaN"
| "num_add _ NaN = NaN"
| "num_add (Fin x) (Fin y) = round_to_double (x + y)"
| "num_add PosInf NegInf = NaN"
| "num_add NegInf PosInf = NaN"
| "num_add PosInf _ = PosInf"
| "num_add NegInf _ = NegInf"
| "num_add (Fin x) PosInf = PosInf"
| "num_add (Fin x) NegInf = NegInf"

definition num_sub :: "jsnum \<Rightarrow> jsnum \<Rightarrow> jsnum" where
  "num_sub a b = num_add a (num_neg b)"

definition inf_of_sign :: "int \<Rightarrow> jsnum" where
  "inf_of_sign s = (if s = 0 then NaN else if 0 < s then PosInf else NegInf)"

fun num_mul :: "jsnum \<Rightarrow> jsnum \<Rightarrow> jsnum" where
  "num_mul NaN _ = NaN"
| "num_mul _ NaN = NaN"
| "num_mul (Fin x) (Fin y) = round_to_double (x * y)"
| "num_mul a b = inf_of_sign (num_sign a * num_sign b)"

fun num_div :: "jsnum \<Rightarrow> jsnum \<Rightarrow> jsnum" where
  "num_div NaN _ = NaN"
| "num_div _ NaN = NaN"
| "num_div (Fin x) (Fin y) =
     (if y = 0 then inf_of_sign (num_sign (Fin x)) else round_to_double (x / y))"
| "num_div (Fin x) _ = Fin 0"
| "num_div a (Fin y) = inf_of_sign (num_sign a * (if y < 0 then -1 else 1))"
| "num_div _ _ = NaN"

fun num_less :: "jsnum \<Rightarrow> jsnum \<Rightarrow> bool" where
  "num_less NaN _ = False"
| "num_less _ NaN = False"
| "num_less (Fin x) (Fin y) = (x < y)"
| "num_less NegInf b = (b \<noteq> NegInf)"
| "num_less a PosInf = (a \<noteq> PosInf)"
| "num_less _ _ = False"

definition is_odd_integer :: "real \<Rightarrow> bool" where
  "is_odd_integer y = (is_integer y \<and> odd \<lfloor>y\<rfloor>)"

text \<open>
  \<open>Math.pow\<close>, by the cases of the language standard. For a finite base other than zero
  and a finite exponent other than zero the standard asks for an approximation of the power
  and fixes no rounding: that number is left unspecified. A negative base with an exponent
  that is not an integer gives NaN.
\<close>

definition pow_approximation :: "real \<Rightarrow> real \<Rightarrow> jsnum" where
  "pow_approximation x y = undefined"

definition real_pow :: "real \<Rightarrow> real \<Rightarrow> jsnum" where
  "real_pow x y =
     (if x = 0 then (if 0 < y then Fin 0 else PosInf)
      else if x < 0 \<and> \<not> is_integer y then NaN
      else pow_approximation x y)"

fun math_pow :: "jsnum \<Rightarrow> jsnum \<Rightarrow> jsnum" where
  "math_pow _ NaN = NaN"
| "math_pow b (Fin y) =
     (if y = 0 then Fin 1
      else case b of
        NaN \<Rightarrow> NaN
      | PosInf \<Rightarrow> (if 0 < y then PosInf else Fin 0)
      | NegInf \<Rightarrow> (if 0 < y then (if is_odd_integer y then NegInf else PosInf) else Fin 0)
      | Fin x \<Rightarrow> real_pow x y)"
| "math_pow NaN _ = NaN"
| "math_pow (Fin x) PosInf =
     (if 1 < \<bar>x\<bar> then PosInf else if \<bar>x\<bar> = 1 then NaN else Fin 0)"
| "math_pow (Fin x) NegInf =
     (if 1 < \<bar>x\<bar> then Fin 0 else if \<bar>x\<bar> = 1 then NaN else PosInf)"
| "math_pow _ PosInf = PosInf"
| "math_pow _ NegInf = Fin 0"

text \<open>\<open>Math.max(...numbers)\<close> and \<open>Math.min(...numbers)\<close>.\<close>

definition math_max :: "jsnum list \<Rightarrow> jsnum" where
  "math_max ns =
     (if NaN \<in> set ns then NaN
      else foldl (\<lambda>m n. if num_less m n then n else m) NegInf ns)"

definition math_min :: "jsnum list \<Rightarrow> jsnum" where
  "math_min ns =
     (if NaN \<in> set ns then NaN
      else foldl (\<lambda>m n. if num_less n m then n else m) PosInf ns)"

subsection \<open>Strings and coercions\<close>

definition charCode :: "char \<Rightarrow> nat" where
  "charCode c = of_char c"

definition in_range :: "char \<Rightarrow> char \<Rightarrow> char \<Rightarrow> bool" where
  "in_range lo hi c = (charCode lo \<le> charCode c \<and> charCode c \<le> charCode hi)"

definition is_digit :: "char \<Rightarrow> bool" where
  "is_digit c = in_range CHR ''0'' CHR ''9'' c"

definition is_upper :: "char \<Rightarrow> bool" where
  "is_upper c = in_range CHR ''A'' CHR ''Z'' c"

definition is_lower :: "char \<Rightarrow> bool" where
  "is_lower c = in_range CHR ''a'' CHR ''z'' c"

definition is_letter :: "char \<Rightarrow> bool" where
  "is_letter c = (is_upper c \<or> is_lower c)"

definition toUpperCase_char :: "char \<Rightarrow> char" where
  "toUpperCase_char c = (if is_lower c then char_of (charCode c - 32) else c)"

definition toUpperCase :: "string \<Rightarrow> string" where
  "toUpperCase s = map toUpperCase_char s"

text \<open>
  White space and line terminators of the language, within the characters a
  \<open>string\<close> holds: tab, line feed, vertical tab, form feed, carriage return, space,
  no-break space.
\<close>

definition is_space :: "char \<Rightarrow> bool" where
  "is_space c = (charCode c \<in> {9, 10, 11, 12, 13, 32, 160})"

definition trim :: "string \<Rightarrow> string" where
  "trim s = rev (dropWhile is_space (rev (dropWhile is_space s)))"

definition startsWith :: "string \<Rightarrow> string \<Rightarrow> bool" where
  "startsWith s p = (take (length p) s = p)"

definition includes_char :: "string \<Rightarrow> char \<Rightarrow> bool" where
  "includes_char s c = (c \<in> set s)"

definition digit_value :: "char \<Rightarrow> nat" where
  "digit_value c = charCode c - charCode CHR ''0''"

text \<open>The value of a string of digits in a base, most significant digit first.\<close>

definition digits_value :: "nat \<Rightarrow> nat list \<Rightarrow> nat" where
  "digits_value base ds = foldl (\<lambda>acc d. acc * base + d) 0 ds"

definition parseInt_digits :: "string \<Rightarrow> nat" where
  "parseInt_digits s = digits_value 10 (map digit_value s)"

definition hex_digit :: "char \<Rightarrow> nat option" where
  "hex_digit c =
     (if is_digit c then Some (digit_value c)
      else if in_range CHR ''a'' CHR ''f'' c then Some (charCode c - 87)
      else if in_range CHR ''A'' CHR ''F'' c then Some (charCode c - 55)
      else None)"

text \<open>
  \<open>0x\<close>, \<open>0o\<close> and \<open>0b\<close> literals: the digits after the prefix, all of them digits
  of the base and at least one.
\<close>

definition radix_literal :: "nat \<Rightarrow> string \<Rightarrow> jsnum" where
  "radix_literal base ds =
     (if ds \<noteq> [] \<and> (\<forall>c \<in> set ds. case hex_digit c of None \<Rightarrow> False | Some d \<Rightarrow> d < base)
      then round_to_double (of_nat (digits_value base (map (\<lambda>c. the (hex_digit c)) ds)))
      else NaN)"

text \<open>
  An unsigned decimal literal: digits, an optional point with digits, an optional exponent;
  at least one digit before the exponent.
\<close>

definition exponent_part :: "string \<Rightarrow> int option" where
  "exponent_part s =
     (case s of
        [] \<Rightarrow> Some 0
      | c # r \<Rightarrow>
          if c = CHR ''e'' \<or> c = CHR ''E'' then
            (let (neg, ds) =
               (case r of
                  [] \<Rightarrow> (False, [])
                | d # r' \<Rightarrow> if d = CHR ''-'' then (True, r')
                            else if d = CHR ''+'' then (False, r') else (False, r))
             in if ds \<noteq> [] \<and> (\<forall>d \<in> set ds. is_digit d)
                then Some (if neg then - int (parseInt_digits ds) else int (parseInt_digits ds))
                else None)
          else None)"

definition scale10 :: "real \<Rightarrow> int \<Rightarrow> real" where
  "scale10 x e = (if 0 \<le> e then x * 10 ^ nat e else x / 10 ^ nat (- e))"

definition unsigned_decimal :: "string \<Rightarrow> jsnum" where
  "unsigned_decimal s =
     (if s = ''Infinity'' then PosInf
      else
        let ip = takeWhile is_digit s;
            r1 = dropWhile is_digit s;
            has_point = (r1 \<noteq> [] \<and> hd r1 = CHR ''.'');
            r2 = (if has_point then tl r1 else r1);
            fp = (if has_point then takeWhile is_digit r2 else []);
            r3 = (if has_point then dropWhile is_digit r2 else r2)
        in if ip = [] \<and> fp = [] then NaN
           else case exponent_part r3 of
             None \<Rightarrow> NaN
           | Some e \<Rightarrow>
               round_to_double
                 (scale10 (of_nat (parseInt_digits (ip @ fp))) (e - int (length fp))))"

text \<open>\<open>Number(s)\<close> on a string.\<close>

definition string_to_number :: "string \<Rightarrow> jsnum" where
  "string_to_number s0 =
     (let s = trim s0 in
      if s = [] then Fin 0
      else if length s \<ge> 2 \<and> hd s = CHR ''0'' \<and> s ! 1 \<in> {CHR ''x'', CHR ''X''}
        then radix_literal 16 (drop 2 s)
      else if length s \<ge> 2 \<and> hd s = CHR ''0'' \<and> s ! 1 \<in> {CHR ''o'', CHR ''O''}
        then radix_literal 8 (drop 2 s)
      else if length s \<ge> 2 \<and> hd s = CHR ''0'' \<and> s ! 1 \<in> {CHR ''b'', CHR ''B''}
        then radix_literal 2 (drop 2 s)
      else if hd s = CHR ''-'' then num_neg (unsigned_decimal (tl s))
      else if hd s = CHR ''+'' then unsigned_decimal (tl s)
      else unsigned_decimal s)"

text \<open>\<open>Number(v)\<close>. An array of numbers goes through its text: empty to 0, one element
  to that element, more to NaN.\<close>

fun Number :: "jsval \<Rightarrow> jsnum" where
  "Number JUndefined = NaN"
| "Number JNull = Fin 0"
| "Number (JBool b) = (if b then Fin 1 else Fin 0)"
| "Number (JNum n) = n"
| "Number (JStr s) = string_to_number s"
| "Number (JArr ns) = (case ns of [] \<Rightarrow> Fin 0 | [n] \<Rightarrow> n | _ \<Rightarrow> NaN)"
| "Number (JObject s) = string_to_number s"

text \<open>The global \<open>isNaN(v)\<close>.\<close>

definition isNaN :: "jsval \<Rightarrow> bool" where
  "isNaN v = isNaN_num (Number v)"

datatype jstype = TUndefined | TObject | TBoolean | TNumber | TString

fun typeof :: "jsval \<Rightarrow> jstype" where
  "typeof JUndefined = TUndefined"
| "typeof JNull = TObject"
| "typeof (JBool _) = TBoolean"
| "typeof (JNum _) = TNumber"
| "typeof (JStr _) = TString"
| "typeof (JArr _) = TObject"
| "typeof (JObject _) = TObject"

fun truthy :: "jsval \<Rightarrow> bool" where
  "truthy JUndefined = False"
| "truthy JNull = False"
| "truthy (JBool b) = b"
| "truthy (JNum n) = (n \<noteq> NaN \<and> n \<noteq> Fin 0)"
| "truthy (JStr s) = (s \<noteq> [])"
| "truthy (JArr _) = True"
| "truthy (JObject _) = True"

text \<open>
  The text of a number, as string concatenation builds it. An integer below \<open>10\<^sup>2\<^sup>1\<close>
  prints its decimal digits. The digits printed for any other finite number are the
  shortest that read back as the same double: they are left unspecified.
\<close>

fun nat_to_string :: "nat \<Rightarrow> string" where
  "nat_to_string n =
     (if n < 10 then [char_of (48 + n)]
      else nat_to_string (n div 10) @ [char_of (48 + n mod 10)])"

definition double_digits :: "real \<Rightarrow> string" where
  "double_digits x = undefined"

fun number_to_string :: "jsnum \<Rightarrow> string" where
  "number_to_string NaN = ''NaN''"
| "number_to_string PosInf = ''Infinity''"
| "number_to_string NegInf = ''-Infinity''"
| "number_to_string (Fin x) =
     (if is_integer x \<and> \<bar>x\<bar> < 10 ^ 21
      then (if x < 0 then ''-'' else []) @ nat_to_string (nat \<bar>\<lfloor>x\<rfloor>\<bar>)
      else double_digits x)"

fun join_with :: "string \<Rightarrow> string list \<Rightarrow> string" where
  "join_with sep [] = []"
| "join_with sep [x] = x"
| "join_with sep (x # y # ys) = x @ sep @ join_with sep (y # ys)"

text \<open>\<open>String(v)\<close>.\<close>

fun String :: "jsval \<Rightarrow> string" where
  "String JUndefined = ''undefined''"
| "String JNull = ''null''"
| "String (JBool b) = (if b then ''true'' else ''false'')"
| "String (JNum n) = number_to_string n"
| "String (JStr s) = s"
| "String (JArr ns) = join_with '','' (map number_to_string ns)"
| "String (JObject s) = s"

text \<open>
  The operator \<open>+\<close>: concatenation as soon as one side is a string (an array or another
  object becomes its text first), addition of the two numbers otherwise. The operator
  \<open>/\<close> always coerces.
\<close>

fun to_primitive_is_string :: "jsval \<Rightarrow> bool" where
  "to_primitive_is_string (JStr _) = True"
| "to_primitive_is_string (JArr _) = True"
| "to_primitive_is_string (JObject _) = True"
| "to_primitive_is_string _ = False"

definition js_add :: "jsval \<Rightarrow> jsval \<Rightarrow> jsval" where
  "js_add a b =
     (if to_primitive_is_string a \<or> to_primitive_is_string b
      then JStr (String a @ String b)
      else JNum (num_add (Number a) (Number b)))"

definition js_div :: "jsval \<Rightarrow> jsval \<Rightarrow> jsval" where
  "js_div a b = JNum (num_div (Number a) (Number b))"

section \<open>The data model\<close>

text \<open>
  A cell is an object with a raw value (the field \<open>value\<close> of the source) and the
  fields that \<open>processData\<close> derives. A field that is absent reads as \<open>undefined\<close>.
  A workbook is an array of tables, a table an array of rows, a row an array of cells; rows
  may differ in length.
\<close>

record cell =
  rawValue :: jsval
  resolved :: jsval
  resolvedValue :: jsval
  excelFormat :: "string option"
  displayValue :: jsval
  textColor :: jsval

type_synonym table = "cell list list"

type_synonym workbook = "table list"

text \<open>\<open>xs[i]\<close>: \<open>undefined\<close>, here \<open>None\<close>, outside the array.\<close>

definition js_index :: "'a list \<Rightarrow> int \<Rightarrow> 'a option" where
  "js_index xs i = (if 0 \<le> i \<and> i < int (length xs) then Some (xs ! nat i) else None)"

text \<open>
  The nodes of the expression tree. \<open>ANull\<close> is a null or undefined node, \<open>AOther t\<close> a
  node whose \<open>type\<close> is none of the five the evaluator knows. The optional table index is
  the field \<open>tableId\<close>.
\<close>

datatype ast =
    ANull
  | AOperation string ast ast
  | AFunction string "ast list"
  | ACell string "int option"
  | ARange string "int option"
  | ALiteral jsval
  | AOther string

section \<open>Reference Resolver\<close>

record cellRef =
  col :: int
  row :: int
  isAbsoluteCol :: bool
  isAbsoluteRow :: bool

text \<open>
  The loop of \<open>parseCellReference\<close> over the upper-cased column letters.
\<close>

definition column_of :: "string \<Rightarrow> int" where
  "column_of upperColStr =
     foldl (\<lambda>column c. column * 26 + (int (charCode c) - int (charCode CHR ''A''))) 0 upperColStr"

text \<open>
  \<open>parseCellReference\<close>. The pattern is an optional dollar, letters, an optional dollar and
  digits up to the end; each group takes what it can, and no other split of the text
  matches.
\<close>

definition parseCellReference :: "string \<Rightarrow> cellRef option" where
  "parseCellReference ref =
     (let colAbs = (ref \<noteq> [] \<and> hd ref = CHR ''$'');
          r1 = (if colAbs then tl ref else ref);
          colStr = takeWhile is_letter r1;
          r2 = dropWhile is_letter r1;
          rowAbs = (r2 \<noteq> [] \<and> hd r2 = CHR ''$'');
          rowStr = (if rowAbs then tl r2 else r2)
      in if colStr = [] \<or> rowStr = [] \<or> \<not> list_all is_digit rowStr then None
         else Some \<lparr> col = column_of (toUpperCase colStr),
                      row = int (parseInt_digits rowStr) - 1,
                      isAbsoluteCol = colAbs,
                      isAbsoluteRow = rowAbs \<rparr>)"

definition catchE :: "exn + 'a \<Rightarrow> (exn \<Rightarrow> exn + 'a) \<Rightarrow> exn + 'a" where
  "catchE m h = (case m of Inl e \<Rightarrow> h e | Inr v \<Rightarrow> Inr v)"

text \<open>\<open>cell.resolvedValue !== undefined ? cell.resolvedValue : cell.value\<close>\<close>

definition cell_current :: "cell \<Rightarrow> jsval" where
  "cell_current c = (if resolvedValue c \<noteq> JUndefined then resolvedValue c else rawValue c)"

text \<open>
  The block under \<open>try\<close> in \<open>getCellValue\<close>: reading an index or a field of
  \<open>undefined\<close> throws.
\<close>

definition getCellValue_try :: "workbook \<Rightarrow> int \<Rightarrow> cellRef \<Rightarrow> exn + jsval" where
  "getCellValue_try data tableIndex cellRef =
     (case js_index data tableIndex of
        None \<Rightarrow> Inl TypeError
      | Some tbl \<Rightarrow>
          (case js_index tbl (row cellRef) of
             None \<Rightarrow> Inl TypeError
           | Some rw \<Rightarrow>
               (case js_index rw (col cellRef) of
                  None \<Rightarrow> Inl TypeError
                | Some c \<Rightarrow> Inr (cell_current c))))"

definition getCellValue :: "string \<Rightarrow> workbook \<Rightarrow> int \<Rightarrow> exn + jsval" where
  "getCellValue ref data tableIndex =
     (if tableIndex \<ge> int (length data) then Inr (JStr ''#REF!'')
      else case parseCellReference ref of
        None \<Rightarrow> Inr (JStr ''#REF!'')
      | Some cellRef \<Rightarrow>
          catchE (getCellValue_try data tableIndex cellRef) (\<lambda>e. Inr (JStr ''#REF!'')))"

text \<open>\<open>s.split(':')\<close>\<close>

fun split_on :: "char \<Rightarrow> string \<Rightarrow> string list" where
  "split_on sep [] = [[]]"
| "split_on sep (c # cs) =
     (if c = sep then [] # split_on sep cs
      else (c # hd (split_on sep cs)) # tl (split_on sep cs))"

text \<open>\<open>table?.[row]?.[col]\<close>, where the table itself may be \<open>undefined\<close>.\<close>

definition cell_at :: "table option \<Rightarrow> int \<Rightarrow> int \<Rightarrow> cell option" where
  "cell_at tbl r c =
     (case tbl of
        None \<Rightarrow> None
      | Some t \<Rightarrow> (case js_index t r of None \<Rightarrow> None | Some rw \<Rightarrow> js_index rw c))"

text \<open>The body of the two loops of \<open>getRangeValues\<close>, for one coordinate.\<close>

definition range_cell_values :: "table option \<Rightarrow> int \<Rightarrow> int \<Rightarrow> jsnum list" where
  "range_cell_values tbl r c =
     (case cell_at tbl r c of
        None \<Rightarrow> []
      | Some cl \<Rightarrow>
          (let numValue = Number (cell_current cl)
           in if \<not> isNaN_num numValue then [numValue] else []))"

definition getRangeValues_try :: "string \<Rightarrow> workbook \<Rightarrow> int \<Rightarrow> exn + jsval" where
  "getRangeValues_try rng data tableIndex =
     (if tableIndex \<ge> int (length data) then Inr JNull
      else
        let tbl = js_index data tableIndex;
            normalizedRange = toUpperCase rng;
            parts = split_on CHR '':'' normalizedRange
        in case parts of
             [] \<Rightarrow> Inl TypeError
           | [startRef] \<Rightarrow> Inl TypeError
           | startRef # endRef # _ \<Rightarrow>
               (case (parseCellReference startRef, parseCellReference endRef) of
                  (Some start, Some en) \<Rightarrow>
                    Inr (JArr (concat (map (\<lambda>r.
                           concat (map (\<lambda>c. range_cell_values tbl r c)
                                       [min (col start) (col en) .. max (col start) (col en)]))
                           [min (row start) (row en) .. max (row start) (row en)])))
                | _ \<Rightarrow> Inr JNull))"

definition getRangeValues :: "string \<Rightarrow> workbook \<Rightarrow> int \<Rightarrow> exn + jsval" where
  "getRangeValues rng data tableIndex =
     catchE (getRangeValues_try rng data tableIndex) (\<lambda>e. Inr JNull)"

section \<open>Function Library\<close>

subsection \<open>The static functions of \<open>ExcelFunctions\<close>, over a list of values\<close>

definition numbers_of :: "jsval list \<Rightarrow> jsnum list" where
  "numbers_of values = filter (\<lambda>n. \<not> isNaN_num n) (map Number values)"

definition ExcelFunctions_static_SUM :: "jsval list \<Rightarrow> jsval" where
  "ExcelFunctions_static_SUM values =
     JNum (foldl (\<lambda>sum v. let num = Number v in if isNaN_num num then sum else num_add sum num)
                 (Fin 0) values)"

definition ExcelFunctions_static_AVERAGE :: "jsval list \<Rightarrow> jsval" where
  "ExcelFunctions_static_AVERAGE values =
     (if length values = 0 then JNum (Fin 0)
      else
        let numbers = filter (\<lambda>v. typeof v = TNumber \<and> \<not> isNaN v) values
        in if length numbers = 0 then JNum (Fin 0)
           else
             let sum = foldl (\<lambda>acc v. num_add acc (Number v)) (Fin 0) numbers
             in JNum (num_div sum (Fin (of_nat (length numbers)))))"

definition ExcelFunctions_static_COUNT :: "jsval list \<Rightarrow> jsval" where
  "ExcelFunctions_static_COUNT values =
     JNum (Fin (of_nat (length (filter
       (\<lambda>v. typeof v = TNumber \<or> (typeof v = TString \<and> \<not> isNaN v)) values))))"

definition ExcelFunctions_static_MAX :: "jsval list \<Rightarrow> jsval" where
  "ExcelFunctions_static_MAX values =
     (let numbers = numbers_of values
      in if length numbers = 0 then JStr ''#ERROR!'' else JNum (math_max numbers))"

definition ExcelFunctions_static_MIN :: "jsval list \<Rightarrow> jsval" where
  "ExcelFunctions_static_MIN values =
     (let numbers = numbers_of values
      in if length numbers = 0 then JStr ''#ERROR!'' else JNum (math_min numbers))"

subsection \<open>The instance methods of \<open>ExcelFunctions\<close>, over argument nodes\<close>

text \<open>\<open>arg.tableId !== undefined ? arg.tableId : currentTableIndex\<close>\<close>

definition table_index_of :: "int option \<Rightarrow> int \<Rightarrow> int" where
  "table_index_of tableId currentTableIndex =
     (case tableId of Some t \<Rightarrow> t | None \<Rightarrow> currentTableIndex)"

text \<open>
  What \<open>flat()\<close> makes of one element of the mapped array: the elements of an array,
  anything else as it is.
\<close>

fun flat_element :: "jsval \<Rightarrow> jsval list" where
  "flat_element (JArr ns) = map JNum ns"
| "flat_element v = [v]"

text \<open>
  The callback of \<open>args.map\<close> in \<open>ExcelFunctions.getFunctionArgValues\<close>. Reading
  \<open>arg.type\<close> of a null argument throws; a node of another type gives \<open>undefined\<close>.
\<close>

definition ExcelFunctions_arg_values :: "ast \<Rightarrow> workbook \<Rightarrow> int \<Rightarrow> exn + jsval list" where
  "ExcelFunctions_arg_values arg allTables currentTableIndex =
     (case arg of
        ANull \<Rightarrow> Inl TypeError
      | ARange reference tableId \<Rightarrow>
          bindE (getRangeValues reference allTables (table_index_of tableId currentTableIndex))
                (\<lambda>v. Inr (flat_element v))
      | ACell reference tableId \<Rightarrow>
          bindE (getCellValue reference allTables (table_index_of tableId currentTableIndex))
                (\<lambda>v. Inr [v])
      | ALiteral v \<Rightarrow> Inr [v]
      | _ \<Rightarrow> Inr [JUndefined])"

fun ExcelFunctions_getFunctionArgValues :: "ast list \<Rightarrow> workbook \<Rightarrow> int \<Rightarrow> exn + jsval list" where
  "ExcelFunctions_getFunctionArgValues [] allTables currentTableIndex = Inr []"
| "ExcelFunctions_getFunctionArgValues (arg # args) allTables currentTableIndex =
     bindE (ExcelFunctions_arg_values arg allTables currentTableIndex) (\<lambda>vs.
     bindE (ExcelFunctions_getFunctionArgValues args allTables currentTableIndex) (\<lambda>rest.
     Inr (vs @ rest)))"

definition error_value :: "exn \<Rightarrow> exn + jsval" where
  "error_value e = Inr (JStr ''#ERROR!'')"

definition ExcelFunctions_SUM :: "ast list \<Rightarrow> workbook \<Rightarrow> int \<Rightarrow> exn + jsval" where
  "ExcelFunctions_SUM args allTables currentTableIndex =
     catchE
       (bindE (ExcelFunctions_getFunctionArgValues args allTables currentTableIndex) (\<lambda>values.
          Inr (JNum (foldl num_add (Fin 0) (numbers_of values)))))
       error_value"

definition ExcelFunctions_AVERAGE :: "ast list \<Rightarrow> workbook \<Rightarrow> int \<Rightarrow> exn + jsval" where
  "ExcelFunctions_AVERAGE args allTables currentTableIndex =
     catchE
       (bindE (ExcelFunctions_getFunctionArgValues args allTables currentTableIndex) (\<lambda>values.
          let numbers = numbers_of values
          in if length numbers = 0 then Inr (JNum (Fin 0))
             else Inr (JNum (num_div (foldl num_add (Fin 0) numbers)
                                     (Fin (of_nat (length numbers)))))))
       error_value"

definition ExcelFunctions_COUNT :: "ast list \<Rightarrow> workbook \<Rightarrow> int \<Rightarrow> exn + jsval" where
  "ExcelFunctions_COUNT args allTables currentTableIndex =
     catchE
       (bindE (ExcelFunctions_getFunctionArgValues args allTables currentTableIndex) (\<lambda>values.
          Inr (JNum (Fin (of_nat (length (filter
            (\<lambda>v. typeof v = TNumber \<or> (typeof v = TString \<and> \<not> isNaN v)) values)))))))
       error_value"

definition ExcelFunctions_MAX :: "ast list \<Rightarrow> workbook \<Rightarrow> int \<Rightarrow> exn + jsval" where
  "ExcelFunctions_MAX args allTables currentTableIndex =
     catchE
       (bindE (ExcelFunctions_getFunctionArgValues args allTables currentTableIndex) (\<lambda>values.
          let numbers = numbers_of values
          in if length numbers = 0 then Inr (JStr ''#ERROR!'')
             else Inr (JNum (math_max numbers))))
       error_value"

definition ExcelFunctions_MIN :: "ast list \<Rightarrow> workbook \<Rightarrow> int \<Rightarrow> exn + jsval" where
  "ExcelFunctions_MIN args allTables currentTableIndex =
     catchE
       (bindE (ExcelFunctions_getFunctionArgValues args allTables currentTableIndex) (\<lambda>values.
          let numbers = numbers_of values
          in if length numbers = 0 then Inr (JStr ''#ERROR!'')
             else Inr (JNum (math_min numbers))))
       error_value"

section \<open>Evaluator\<close>

subsection \<open>The dispatch table \<open>this.functions\<close> of \<open>FormulaEngine\<close>\<close>

text \<open>
  \<open>SUM\<close>: the loop over the arguments, with the running \<open>sum\<close>. A range adds the sum of
  its values, a cell its number unless that is NaN, a literal its value as it is; a node of
  another type adds nothing.
\<close>

fun functions_SUM_loop :: "jsval \<Rightarrow> ast list \<Rightarrow> workbook \<Rightarrow> int \<Rightarrow> exn + jsval" where
  "functions_SUM_loop acc [] allTables currentTableIndex = Inr acc"
| "functions_SUM_loop acc (arg # args) allTables currentTableIndex =
     bindE
       (case arg of
          ANull \<Rightarrow> Inl TypeError
        | ARange reference tableId \<Rightarrow>
            bindE (getRangeValues reference allTables (table_index_of tableId currentTableIndex))
              (\<lambda>values. case values of
                 JArr ns \<Rightarrow>
                   if length ns > 0 then Inr (js_add acc (JNum (foldl num_add (Fin 0) ns)))
                   else Inr acc
               | _ \<Rightarrow> Inr acc)
        | ACell reference tableId \<Rightarrow>
            bindE (getCellValue reference allTables (table_index_of tableId currentTableIndex))
              (\<lambda>v. let numValue = Number v
                    in if \<not> isNaN_num numValue then Inr (js_add acc (JNum numValue))
                       else Inr acc)
        | ALiteral v \<Rightarrow> Inr (js_add acc v)
        | _ \<Rightarrow> Inr acc)
       (\<lambda>acc'. functions_SUM_loop acc' args allTables currentTableIndex)"

definition functions_SUM :: "ast list \<Rightarrow> workbook \<Rightarrow> int \<Rightarrow> exn + jsval" where
  "functions_SUM args allTables currentTableIndex =
     functions_SUM_loop (JNum (Fin 0)) args allTables currentTableIndex"

fun functions_AVERAGE_loop :: "jsval list \<Rightarrow> ast list \<Rightarrow> workbook \<Rightarrow> int \<Rightarrow> exn + jsval list" where
  "functions_AVERAGE_loop values [] allTables currentTableIndex = Inr values"
| "functions_AVERAGE_loop values (arg # args) allTables currentTableIndex =
     bindE
       (case arg of
          ANull \<Rightarrow> Inl TypeError
        | ARange reference tableId \<Rightarrow>
            bindE (getRangeValues reference allTables (table_index_of tableId currentTableIndex))
              (\<lambda>rangeValues. case rangeValues of
                 JArr ns \<Rightarrow> Inr (values @ map JNum ns)
               | _ \<Rightarrow> Inr values)
        | ACell reference tableId \<Rightarrow>
            bindE (getCellValue reference allTables (table_index_of tableId currentTableIndex))
              (\<lambda>v. let numValue = Number v
                    in if \<not> isNaN_num numValue then Inr (values @ [JNum numValue])
                       else Inr values)
        | ALiteral v \<Rightarrow> Inr (values @ [v])
        | _ \<Rightarrow> Inr values)
       (\<lambda>values'. functions_AVERAGE_loop values' args allTables currentTableIndex)"

definition functions_AVERAGE :: "ast list \<Rightarrow> workbook \<Rightarrow> int \<Rightarrow> exn + jsval" where
  "functions_AVERAGE args allTables currentTableIndex =
     catchE
       (bindE (functions_AVERAGE_loop [] args allTables currentTableIndex) (\<lambda>values.
          Inr (ExcelFunctions_static_AVERAGE values)))
       error_value"

subsection \<open>\<open>evaluateAst\<close> and \<open>FormulaEngine.getFunctionArgValues\<close>\<close>

text \<open>
  The arithmetic of an \<open>operation\<close> node, once both sides are numbers.
\<close>

definition apply_operator :: "string \<Rightarrow> jsnum \<Rightarrow> jsnum \<Rightarrow> exn + jsval" where
  "apply_operator operator leftNum rightNum =
     (if operator = ''+'' then Inr (JNum (num_add leftNum rightNum))
      else if operator = ''-'' then Inr (JNum (num_sub leftNum rightNum))
      else if operator = ''*'' then Inr (JNum (num_mul leftNum rightNum))
      else if operator = ''/'' then
        (if rightNum = Fin 0 then Inr (JStr ''#DIV/0!'') else Inr (JNum (num_div leftNum rightNum)))
      else if operator = ''^'' then Inr (JNum (math_pow leftNum rightNum))
      else Inl (Error (''Unknown operator: '' @ operator)))"

text \<open>
  The test \<open>ast.name in this.functions\<close> finds the five keys of the table and, with them,
  the properties that the table inherits from \<open>Object.prototype\<close>; the call that follows
  runs whatever the name gives. The inherited properties and their calls are those of the
  language standard and its annex on legacy features, on the table as \<open>this\<close> and the
  array of argument nodes as first argument: an array prints the texts of its elements
  between commas, a node being a plain object and a null node the empty text.
\<close>

definition function_names :: "string set" where
  "function_names = {''SUM'', ''AVERAGE'', ''COUNT'', ''MAX'', ''MIN''}"

definition inherited_names :: "string set" where
  "inherited_names =
     {''constructor'', ''toString'', ''toLocaleString'', ''valueOf'', ''hasOwnProperty'',
      ''isPrototypeOf'', ''propertyIsEnumerable'', ''__defineGetter__'', ''__defineSetter__'',
      ''__lookupGetter__'', ''__lookupSetter__'', ''__proto__''}"

definition node_text :: "ast \<Rightarrow> string" where
  "node_text node = (case node of ANull \<Rightarrow> [] | _ \<Rightarrow> ''[object Object]'')"

definition arguments_text :: "ast list \<Rightarrow> string" where
  "arguments_text args = join_with '','' (map node_text args)"

text \<open>
  \<open>constructor\<close> is \<open>Object\<close>, which returns the array it is given;
  \<open>valueOf\<close> returns the table; \<open>hasOwnProperty\<close> and \<open>propertyIsEnumerable\<close> look
  for a key of the table that is the text of the array; \<open>__lookupGetter__\<close> and
  \<open>__lookupSetter__\<close> find no accessor under that text; \<open>__defineGetter__\<close> and
  \<open>__defineSetter__\<close> throw, their second argument being no function; \<open>__proto__\<close> is
  an object and calling it throws.
\<close>

definition call_inherited :: "string \<Rightarrow> ast list \<Rightarrow> exn + jsval" where
  "call_inherited name args =
     (if name = ''constructor'' then Inr (JObject (arguments_text args))
      else if name = ''toString'' \<or> name = ''toLocaleString''
        then Inr (JStr ''[object Object]'')
      else if name = ''valueOf'' then Inr (JObject ''[object Object]'')
      else if name = ''hasOwnProperty'' \<or> name = ''propertyIsEnumerable''
        then Inr (JBool (arguments_text args \<in> function_names))
      else if name = ''isPrototypeOf'' then Inr (JBool False)
      else if name = ''__lookupGetter__'' \<or> name = ''__lookupSetter__'' then Inr JUndefined
      else Inl TypeError)"

text \<open>
  \<open>evaluateAst\<close> returns null on a null node, before its \<open>try\<close>; everything thrown
  under the \<open>try\<close> becomes \<open>#ERROR!\<close>. \<open>COUNT\<close>, \<open>MAX\<close> and \<open>MIN\<close> of the
  dispatch table flatten their arguments with \<open>FormulaEngine.getFunctionArgValues\<close>, which
  reads a range or a cell in the current table and evaluates any other node. The table
  calls \<open>AVERAGE\<close>, \<open>COUNT\<close>, \<open>MAX\<close> and \<open>MIN\<close> of \<open>ExcelFunctions\<close> on a list
  of values, which is the signature of the static functions.
\<close>

fun evaluateAst :: "ast \<Rightarrow> workbook \<Rightarrow> int \<Rightarrow> exn + jsval"
and FormulaEngine_getFunctionArgValues :: "ast list \<Rightarrow> workbook \<Rightarrow> int \<Rightarrow> exn + jsval list"
where
  "evaluateAst ANull allTables currentTableIndex = Inr JNull"
| "evaluateAst (AOperation operator l r) allTables currentTableIndex =
     catchE
       (bindE (evaluateAst l allTables currentTableIndex) (\<lambda>left.
        bindE (evaluateAst r allTables currentTableIndex) (\<lambda>right.
          let leftNum = Number left; rightNum = Number right
          in if isNaN_num leftNum \<or> isNaN_num rightNum then Inr (JStr ''#ERROR!'')
             else apply_operator operator leftNum rightNum)))
       error_value"
| "evaluateAst (AFunction name args) allTables currentTableIndex =
     catchE
       (if name \<notin> function_names \<union> inherited_names
          then Inl (Error (''Unknown function: '' @ name))
        else if name \<in> inherited_names then call_inherited name args
        else if name = ''SUM'' then functions_SUM args allTables currentTableIndex
        else if name = ''AVERAGE'' then functions_AVERAGE args allTables currentTableIndex
        else
          bindE (FormulaEngine_getFunctionArgValues args allTables currentTableIndex) (\<lambda>values.
            if name = ''COUNT'' then Inr (ExcelFunctions_static_COUNT values)
            else if name = ''MAX'' then Inr (ExcelFunctions_static_MAX values)
            else Inr (ExcelFunctions_static_MIN values)))
       error_value"
| "evaluateAst (ACell reference tableId) allTables currentTableIndex =
     catchE (getCellValue reference allTables (table_index_of tableId currentTableIndex))
       error_value"
| "evaluateAst (ARange reference tableId) allTables currentTableIndex =
     catchE (getRangeValues reference allTables (table_index_of tableId currentTableIndex))
       error_value"
| "evaluateAst (ALiteral v) allTables currentTableIndex = catchE (Inr v) error_value"
| "evaluateAst (AOther t) allTables currentTableIndex =
     catchE (Inl (Error (''Unknown AST type: '' @ t))) error_value"
| "FormulaEngine_getFunctionArgValues [] allTables currentTableIndex = Inr []"
| "FormulaEngine_getFunctionArgValues (arg # args) allTables currentTableIndex =
     bindE
       (case arg of
          ANull \<Rightarrow> Inl TypeError
        | ARange reference tableId \<Rightarrow>
            bindE (getRangeValues reference allTables currentTableIndex)
                  (\<lambda>v. Inr (flat_element v))
        | ACell reference tableId \<Rightarrow>
            bindE (getCellValue reference allTables currentTableIndex) (\<lambda>v. Inr [v])
        | _ \<Rightarrow> bindE (evaluateAst arg allTables currentTableIndex) (\<lambda>v. Inr [v]))
       (\<lambda>vs.
     bindE (FormulaEngine_getFunctionArgValues args allTables currentTableIndex) (\<lambda>rest.
     Inr (vs @ rest)))"

subsection \<open>\<open>evaluateFormula\<close>\<close>

text \<open>
  The parser is not part of the engine and is a parameter: \<open>parse formula\<close> is the tree, or
  the exception the parser throws. The set \<open>visited\<close> is mutated in place, so the function
  returns it with its result; what was added before an exception stays. A key is the text
  of the table index, a colon and the formula, which determines the index and the formula:
  the model keeps the pair.
\<close>

type_synonym formula_key = "int \<times> string"

definition evaluateFormula ::
  "(string \<Rightarrow> exn + ast) \<Rightarrow> string \<Rightarrow> workbook \<Rightarrow> int \<Rightarrow> formula_key set
     \<Rightarrow> jsval \<times> formula_key set" where
  "evaluateFormula parse formula allTables currentTableIndex visited =
     (if \<not> startsWith formula ''='' then (JStr formula, visited)
      else
        let formulaKey = (currentTableIndex, formula)
        in if formulaKey \<in> visited then (JStr ''#CIRCULAR!'', visited)
           else
             let visited1 = insert formulaKey visited
             in case bindE (parse formula)
                           (\<lambda>tree. evaluateAst tree allTables currentTableIndex) of
                  Inr result \<Rightarrow> (result, visited1 - {formulaKey})
                | Inl error \<Rightarrow> (JStr ''#ERROR!'', visited1))"

section \<open>Orchestrator\<close>

definition convertToNumber :: "jsval \<Rightarrow> jsval" where
  "convertToNumber v =
     (case v of
        JStr s \<Rightarrow> if \<not> isNaN v \<and> trim s \<noteq> [] then JNum (Number v) else v
      | _ \<Rightarrow> v)"

text \<open>
  The formatter is not part of the engine either: \<open>format v f\<close> is the two fields read from
  its result, or the exception thrown by the call or by reading them.
\<close>

record formatted =
  formatted_displayValue :: jsval
  formatted_textColor :: jsval

record formula_entry =
  entry_table :: nat
  entry_row :: nat
  entry_col :: nat
  entry_cell :: cell

record result =
  tables :: workbook
  formulas :: "formula_entry list"

definition has_format :: "cell \<Rightarrow> bool" where
  "has_format c = (case excelFormat c of None \<Rightarrow> False | Some f \<Rightarrow> f \<noteq> [])"

text \<open>The lines that apply the format, the same in both branches of \<open>processData\<close>.\<close>

definition apply_format ::
  "(jsval \<Rightarrow> string \<Rightarrow> exn + formatted) \<Rightarrow> jsval \<Rightarrow> cell \<Rightarrow> exn + cell" where
  "apply_format format v c =
     (if has_format c then
        bindE (format v (the (excelFormat c))) (\<lambda>fm.
          let c1 = c\<lparr>displayValue := formatted_displayValue fm\<rparr>
          in if truthy (formatted_textColor fm)
             then Inr (c1\<lparr>textColor := formatted_textColor fm\<rparr>)
             else Inr c1)
      else Inr (c\<lparr>displayValue := JStr (String v)\<rparr>))"

definition set_cell :: "workbook \<Rightarrow> nat \<Rightarrow> nat \<Rightarrow> nat \<Rightarrow> cell \<Rightarrow> workbook" where
  "set_cell wb t r c cl = wb[t := (wb ! t)[r := (wb ! t ! r)[c := cl]]]"

text \<open>
  The body of the innermost \<open>forEach\<close>, on the cell at a coordinate of the workbook. The
  cell object is changed in place: the workbook that the next formula reads holds the new
  fields. Every cell of the workbook is taken to be an object of its own.
\<close>

definition process_cell ::
  "(string \<Rightarrow> exn + ast) \<Rightarrow> (jsval \<Rightarrow> string \<Rightarrow> exn + formatted) \<Rightarrow> result \<Rightarrow> nat \<times> nat \<times> nat
     \<Rightarrow> exn + result" where
  "process_cell parse format res crd =
     (case crd of (tableIndex, rowIndex, colIndex) \<Rightarrow>
        let cl = tables res ! tableIndex ! rowIndex ! colIndex;
            originalValue = rawValue cl
        in if typeof originalValue = TString \<and> startsWith (String originalValue) ''='' then
             let resolvedValue0 =
                   fst (evaluateFormula parse (String originalValue) (tables res)
                          (int tableIndex) {});
                 c1 = cl\<lparr>resolved := JBool True, resolvedValue := convertToNumber resolvedValue0\<rparr>;
                 formatValue =
                   (if has_format c1 \<and> includes_char (the (excelFormat c1)) CHR ''%''
                    then js_div (resolvedValue c1) (JNum (Fin 100))
                    else resolvedValue c1)
             in bindE (apply_format format formatValue c1) (\<lambda>c2.
                  Inr \<lparr> tables = set_cell (tables res) tableIndex rowIndex colIndex c2,
                        formulas = formulas res @
                          [\<lparr> entry_table = tableIndex, entry_row = rowIndex,
                             entry_col = colIndex, entry_cell = c2 \<rparr>] \<rparr>)
           else
             let c1 = cl\<lparr>resolved := JBool True, resolvedValue := originalValue\<rparr>
             in bindE (apply_format format originalValue c1) (\<lambda>c2.
                  Inr (res\<lparr>tables := set_cell (tables res) tableIndex rowIndex colIndex c2\<rparr>)))"

text \<open>The coordinates in the order of the three nested \<open>forEach\<close>.\<close>

definition coordinates :: "workbook \<Rightarrow> (nat \<times> nat \<times> nat) list" where
  "coordinates wb =
     concat (map (\<lambda>t.
       concat (map (\<lambda>r. map (\<lambda>c. (t, r, c)) [0 ..< length (wb ! t ! r)])
                   [0 ..< length (wb ! t)]))
       [0 ..< length wb])"

fun process_cells ::
  "(string \<Rightarrow> exn + ast) \<Rightarrow> (jsval \<Rightarrow> string \<Rightarrow> exn + formatted) \<Rightarrow> result
     \<Rightarrow> (nat \<times> nat \<times> nat) list \<Rightarrow> exn + result" where
  "process_cells parse format res [] = Inr res"
| "process_cells parse format res (crd # crds) =
     bindE (process_cell parse format res crd) (\<lambda>res'. process_cells parse format res' crds)"

text \<open>
  The input of \<open>processData\<close> is an array of tables, or an object whose field \<open>tables\<close>
  is taken as the one table of the result.
\<close>

datatype input_data = DataArray workbook | DataObject table

definition processData ::
  "(string \<Rightarrow> exn + ast) \<Rightarrow> (jsval \<Rightarrow> string \<Rightarrow> exn + formatted) \<Rightarrow> input_data \<Rightarrow> exn + result" where
  "processData parse format data =
     (let res = \<lparr> tables = (case data of DataArray wb \<Rightarrow> wb | DataObject tb \<Rightarrow> [tb]),
                  formulas = [] \<rparr>
      in process_cells parse format res (coordinates (tables res)))"

section \<open>Specification-side definitions and sample data\<close>

text \<open>
  The reference syntax in the words of the specification: an optional dollar, letters, an
  optional dollar, digits.
\<close>

definition well_formed_reference :: "string \<Rightarrow> bool" where
  "well_formed_reference s =
     (\<exists>d1 ls d2 ds. s = d1 @ ls @ d2 @ ds \<and>
        (d1 = [] \<or> d1 = ''$'') \<and> ls \<noteq> [] \<and> list_all is_letter ls \<and>
        (d2 = [] \<or> d2 = ''$'') \<and> ds \<noteq> [] \<and> list_all is_digit ds)"

text \<open>A cell as the input gives it: a raw value and no other field.\<close>

definition plain_cell :: "jsval \<Rightarrow> cell" where
  "plain_cell v = \<lparr> rawValue = v, resolved = JUndefined, resolvedValue = JUndefined,
                    excelFormat = None, displayValue = JUndefined, textColor = JUndefined \<rparr>"

text \<open>The resolved values of a processed workbook, cell by cell.\<close>

definition resolved_values :: "exn + result \<Rightarrow> jsval list list list option" where
  "resolved_values r =
     (case r of Inl e \<Rightarrow> None | Inr res \<Rightarrow> Some (map (map (map resolvedValue)) (tables res)))"

text \<open>
  A parser for the examples: it reads a number literal and two cell references, and throws
  on any other text.
\<close>

definition sample_parser :: "string \<Rightarrow> exn + ast" where
  "sample_parser s =
     (if s = ''=5'' then Inr (ALiteral (JNum (Fin 5)))
      else if s = ''=A1'' then Inr (ACell ''A1'' None)
      else if s = ''=B1'' then Inr (ACell ''B1'' None)
      else Inl (Error ''syntax''))"

definition sample_formatter :: "jsval \<Rightarrow> string \<Rightarrow> exn + formatted" where
  "sample_formatter v f =
     Inr \<lparr> formatted_displayValue = JStr (String v), formatted_textColor = JUndefined \<rparr>"

text \<open>Two tables that differ in their cell A1, and a row of mixed values.\<close>

definition two_tables :: workbook where
  "two_tables = [[[plain_cell (JNum (Fin 1))]], [[plain_cell (JNum (Fin 2))]]]"

definition mixed_row :: workbook where
  "mixed_row = [[[plain_cell (JNum (Fin 1)), plain_cell (JStr ''x''), plain_cell (JNum (Fin 3))]]]"

section \<open>Basic facts\<close>

lemma bindE_simps [simp]: "bindE (Inr v) f = f v" "bindE (Inl e) f = Inl e"
  by (simp_all add: bindE_def)

lemma catchE_simps [simp]: "catchE (Inr v) h = Inr v" "catchE (Inl e) h = h e"
  by (simp_all add: catchE_def)

subsection \<open>The functions with a \<open>try\<close> around their body always return\<close>

lemma getCellValue_returns: "\<exists>v. getCellValue ref data tableIndex = Inr v"
  by (auto simp: getCellValue_def getCellValue_try_def split: option.splits)

lemma getRangeValues_returns: "\<exists>v. getRangeValues rng data tableIndex = Inr v"
  by (cases "getRangeValues_try rng data tableIndex") (auto simp: getRangeValues_def)


subsection \<open>The pattern of \<open>parseCellReference\<close>\<close>

lemma letters_then_rest:
  assumes "list_all is_letter ls" and "r = [] \<or> \<not> is_letter (hd r)"
  shows "takeWhile is_letter (ls @ r) = ls" and "dropWhile is_letter (ls @ r) = r"
  using assms by (induction ls) (auto simp: takeWhile_eq_Nil_iff dropWhile_eq_self_iff
      intro: takeWhile_eq_Nil_iff [THEN iffD2])

lemma not_letter_chars: "\<not> is_letter CHR ''$''" "is_digit c \<Longrightarrow> \<not> is_letter c"
  by (auto simp: is_letter_def is_upper_def is_lower_def is_digit_def in_range_def charCode_def)

lemma not_digit_dollar: "\<not> is_digit CHR ''$''"
  by (simp add: is_digit_def in_range_def charCode_def)

lemma parseCellReference_well_formed:
  "parseCellReference s \<noteq> None \<longleftrightarrow> well_formed_reference s"
proof
  define colAbs where "colAbs = (s \<noteq> [] \<and> hd s = CHR ''$'')"
  define r1 where "r1 = (if colAbs then tl s else s)"
  define r2 where "r2 = dropWhile is_letter r1"
  define rowAbs where "rowAbs = (r2 \<noteq> [] \<and> hd r2 = CHR ''$'')"
  define rowStr where "rowStr = (if rowAbs then tl r2 else r2)"
  assume "parseCellReference s \<noteq> None"
  then have ok: "takeWhile is_letter r1 \<noteq> []" "rowStr \<noteq> []" "list_all is_digit rowStr"
    by (auto simp: parseCellReference_def Let_def colAbs_def r1_def r2_def rowAbs_def rowStr_def
          split: if_splits)
  have s: "s = (if colAbs then ''$'' else []) @ r1"
    by (cases s) (auto simp: colAbs_def r1_def)
  have r1: "r1 = takeWhile is_letter r1 @ r2"
    by (simp add: r2_def)
  have r2: "r2 = (if rowAbs then ''$'' else []) @ rowStr"
    by (cases r2) (auto simp: rowAbs_def rowStr_def)
  have "s = (if colAbs then ''$'' else []) @ takeWhile is_letter r1
              @ (if rowAbs then ''$'' else []) @ rowStr"
    using s r1 r2 by metis
  moreover have "list_all is_letter (takeWhile is_letter r1)"
    by (simp add: list_all_iff) (meson set_takeWhileD)
  ultimately show "well_formed_reference s"
    unfolding well_formed_reference_def using ok by (intro exI conjI) (assumption | simp)+
next
  assume "well_formed_reference s"
  then obtain d1 ls d2 ds where s: "s = d1 @ ls @ d2 @ ds"
    and d1: "d1 = [] \<or> d1 = ''$''" and ls: "ls \<noteq> []" "list_all is_letter ls"
    and d2: "d2 = [] \<or> d2 = ''$''" and ds: "ds \<noteq> []" "list_all is_digit ds"
    unfolding well_formed_reference_def by blast
  from ls obtain l ls' where l: "ls = l # ls'" "is_letter l" by (cases ls) auto
  from ds obtain d ds' where d: "ds = d # ds'" "is_digit d" by (cases ds) auto
  have l_dollar: "l \<noteq> CHR ''$''" using l(2) not_letter_chars(1) by auto
  have d_dollar: "d \<noteq> CHR ''$''" using d(2) not_digit_dollar by auto
  have colAbs: "(s \<noteq> [] \<and> hd s = CHR ''$'') = (d1 = ''$'')"
    using d1 s l l_dollar by auto
  have r1: "(if d1 = ''$'' then tl s else s) = ls @ (d2 @ ds)"
    using d1 s by auto
  have nl: "d2 @ ds = [] \<or> \<not> is_letter (hd (d2 @ ds))"
    using d2 d not_letter_chars by auto
  have tw: "takeWhile is_letter (ls @ (d2 @ ds)) = ls"
    and dw: "dropWhile is_letter (ls @ (d2 @ ds)) = d2 @ ds"
    using letters_then_rest [OF ls(2) nl] by simp_all
  have rowAbs: "(d2 @ ds \<noteq> [] \<and> hd (d2 @ ds) = CHR ''$'') = (d2 = ''$'')"
    using d2 d d_dollar by auto
  have rowStr: "(if d2 = ''$'' then tl (d2 @ ds) else d2 @ ds) = ds"
    using d2 by auto
  show "parseCellReference s \<noteq> None"
    unfolding parseCellReference_def Let_def colAbs r1 tw dw rowAbs rowStr
    using ls ds by simp
qed

section \<open>The claims\<close>

text \<open>
  C1. A cell at table 0, row 0, column 0 holds the formula \<open>=A1\<close>, and that formula is
  evaluated with a fresh set of keys in progress. The claim expects \<open>#CIRCULAR!\<close>. The
  code returns the text \<open>=A1\<close>: the reference is read by \<open>getCellValue\<close>, which hands
  back the raw value of the cell and never evaluates it, so the key put into the set is never
  looked up again. The theorem holds for every parser that reads \<open>=A1\<close> as the cell
  reference A1 and for every workbook with that cell, not yet resolved, at that place.
\<close>

theorem self_reference_returns_formula_text:
  assumes "parse ''=A1'' = Inr (ACell ''A1'' None)"
    and "cell_at (js_index data 0) 0 0 = Some c"
    and "rawValue c = JStr ''=A1''" and "resolvedValue c = JUndefined"
  shows "evaluateFormula parse ''=A1'' data 0 {} = (JStr ''=A1'', {})"
proof -
  have ref: "parseCellReference ''A1'' =
      Some \<lparr>col = 0, row = 0, isAbsoluteCol = False, isAbsoluteRow = False\<rparr>"
    by code_simp
  have "getCellValue ''A1'' data 0 = Inr (JStr ''=A1'')"
    using assms(2-4)
    by (auto simp: ref getCellValue_def getCellValue_try_def cell_at_def js_index_def
          cell_current_def split: option.splits if_splits)
  then show ?thesis
    using assms(1) by (simp add: evaluateFormula_def startsWith_def table_index_of_def)
qed

theorem self_reference_returns_formula_text_witness:
  "sample_parser ''=A1'' = Inr (ACell ''A1'' None) \<and>
   cell_at (js_index [[[plain_cell (JStr ''=A1'')]]] 0) 0 0 = Some (plain_cell (JStr ''=A1'')) \<and>
   rawValue (plain_cell (JStr ''=A1'')) = JStr ''=A1'' \<and>
   resolvedValue (plain_cell (JStr ''=A1'')) = JUndefined \<and>
   evaluateFormula sample_parser ''=A1'' [[[plain_cell (JStr ''=A1'')]]] 0 {} = (JStr ''=A1'', {})"
proof -
  have p: "sample_parser ''=A1'' = Inr (ACell ''A1'' None)"
    by (simp add: sample_parser_def)
  have c: "cell_at (js_index [[[plain_cell (JStr ''=A1'')]]] 0) 0 0 = Some (plain_cell (JStr ''=A1''))"
    by (simp add: cell_at_def js_index_def)
  have r: "rawValue (plain_cell (JStr ''=A1'')) = JStr ''=A1''"
    and u: "resolvedValue (plain_cell (JStr ''=A1'')) = JUndefined"
    by (simp_all add: plain_cell_def)
  show ?thesis
    using p c r u
      self_reference_returns_formula_text [where parse = sample_parser
        and data = "[[[plain_cell (JStr ''=A1'')]]]" and c = "plain_cell (JStr ''=A1'')",
        OF p c r u]
    by simp
qed

text \<open>
  C2. The claim is that a formula cell which refers to another formula cell gets the same
  resolved value whether the cell referred to comes earlier or later in the pass. In the code
  it does not: a reference to a cell already visited reads its resolved value, a reference to
  a cell still to come reads its raw formula text. In the row \<open>=5, =A1\<close> the second cell
  resolves to 5; in the row \<open>=B1, =5\<close> the first cell resolves to the text \<open>=5\<close>. This
  holds for every parser that reads the three formulas as a literal and two cell references,
  and for every formatter.
\<close>

theorem reference_order_matters:
  assumes "parse ''=5'' = Inr (ALiteral (JNum (Fin 5)))"
    and "parse ''=A1'' = Inr (ACell ''A1'' None)"
    and "parse ''=B1'' = Inr (ACell ''B1'' None)"
  shows "resolved_values (processData parse format
           (DataArray [[[plain_cell (JStr ''=5''), plain_cell (JStr ''=A1'')]]]))
           = Some [[[JNum (Fin 5), JNum (Fin 5)]]] \<and>
         resolved_values (processData parse format
           (DataArray [[[plain_cell (JStr ''=B1''), plain_cell (JStr ''=5'')]]]))
           = Some [[[JStr ''=5'', JNum (Fin 5)]]]"
proof -
  have a1: "parseCellReference ''A1'' =
      Some \<lparr>col = 0, row = 0, isAbsoluteCol = False, isAbsoluteRow = False\<rparr>"
    by code_simp
  have b1: "parseCellReference ''B1'' =
      Some \<lparr>col = 1, row = 0, isAbsoluteCol = False, isAbsoluteRow = False\<rparr>"
    by code_simp
  have n5: "string_to_number ''=5'' = NaN" by code_simp
  have s5: "String (JNum (Fin 5)) = ''5''" by code_simp
  show ?thesis
    using assms
    by (simp add: processData_def coordinates_def process_cell_def plain_cell_def
          evaluateFormula_def startsWith_def convertToNumber_def isNaN_def isNaN_num_def
          apply_format_def has_format_def set_cell_def resolved_values_def error_value_def
          getCellValue_def getCellValue_try_def js_index_def cell_current_def
          table_index_of_def a1 b1 n5 s5 upt_rec Let_def)
qed

theorem reference_order_matters_witness:
  "sample_parser ''=5'' = Inr (ALiteral (JNum (Fin 5))) \<and>
   sample_parser ''=A1'' = Inr (ACell ''A1'' None) \<and>
   sample_parser ''=B1'' = Inr (ACell ''B1'' None) \<and>
   resolved_values (processData sample_parser sample_formatter
     (DataArray [[[plain_cell (JStr ''=5''), plain_cell (JStr ''=A1'')]]]))
     = Some [[[JNum (Fin 5), JNum (Fin 5)]]] \<and>
   resolved_values (processData sample_parser sample_formatter
     (DataArray [[[plain_cell (JStr ''=B1''), plain_cell (JStr ''=5'')]]]))
     = Some [[[JStr ''=5'', JNum (Fin 5)]]]"
proof -
  have p5: "sample_parser ''=5'' = Inr (ALiteral (JNum (Fin 5)))"
    and pa: "sample_parser ''=A1'' = Inr (ACell ''A1'' None)"
    and pb: "sample_parser ''=B1'' = Inr (ACell ''B1'' None)"
    by (simp_all add: sample_parser_def)
  show ?thesis
    using p5 pa pb reference_order_matters [OF p5 pa pb, of sample_formatter] by simp
qed

text \<open>
  C3. The claim is that the column letters A, Z, AA and AB decode to 0, 25, 26 and 27. The
  loop of \<open>parseCellReference\<close> gives a letter the value of its distance from A, so a
  leading A counts for nothing: A and Z decode to 0 and 25, but AA decodes to 0 and AB to 1.
\<close>

theorem column_decoding:
  "map (\<lambda>ref. map_option col (parseCellReference ref)) [''A1'', ''Z1'', ''AA1'', ''AB1'']
     = [Some 0, Some 25, Some 0, Some 1]"
  by code_simp

text \<open>
  C4. The claim is that the two routines that flatten arguments give the same list. They
  do not: for a cell reference that names its table, the routine of the library reads that
  table, and the routine of the engine reads the current table. With the reference A1 of
  table 1 and current table 0, the engine yields the 1 of table 0 and the library the 2 of
  table 1.
\<close>

theorem flattening_routines_differ:
  "FormulaEngine_getFunctionArgValues [ACell ''A1'' (Some 1)] two_tables 0 = Inr [JNum (Fin 1)] \<and>
   ExcelFunctions_getFunctionArgValues [ACell ''A1'' (Some 1)] two_tables 0 = Inr [JNum (Fin 2)]"
  by code_simp



text \<open>
  C6, as amended. On a null node \<open>evaluateAst\<close> returns null, by the test it makes before
  anything else; on a node whose type is none of operation, function, cell, range and literal
  it returns \<open>#ERROR!\<close>. The claim as written expects \<open>#ERROR!\<close> on a null node too.
\<close>

theorem evaluateAst_null_and_unknown:
  "evaluateAst ANull allTables currentTableIndex = Inr JNull \<and>
   evaluateAst (AOther t) allTables currentTableIndex = Inr (JStr ''#ERROR!'')"
  by (simp add: error_value_def)

theorem evaluateAst_null_counterexample:
  "evaluateAst ANull [] 0 \<noteq> Inr (JStr ''#ERROR!'')"
  by simp

subsection \<open>The static \<open>SUM\<close> on any list\<close>

text \<open>
  The loop of the static \<open>SUM\<close> makes the additions of the numeric values, in their
  order, and no other.
\<close>

lemma static_SUM_skips_non_numeric:
  "ExcelFunctions_static_SUM values = JNum (foldl num_add (Fin 0) (numbers_of values))"
proof -
  have "foldl (\<lambda>sum v. let num = Number v in if isNaN_num num then sum else num_add sum num) a vs
      = foldl num_add a (numbers_of vs)" for a vs
    by (induction vs arbitrary: a) (simp_all add: numbers_of_def Let_def)
  then show ?thesis by (simp add: ExcelFunctions_static_SUM_def)
qed

text \<open>
  C7. The claim is that \<open>SUM\<close> adds the numeric values among the flattened values of
  its arguments and skips the others. \<open>SUM\<close> of the dispatch table does so for a cell
  and for a range: a cell that holds the text x adds nothing, and the range over a row that
  holds 1, x and 3 gives 4. For a literal it does not: the literal is added as it is, without
  the coercion and the test applied to a cell, and the literal x turns the sum into the text
  \<open>0x\<close>. \<open>SUM\<close> of the library and the static \<open>SUM\<close> skip that literal and
  return 0.
\<close>

theorem SUM_text_literal:
  "functions_SUM [ALiteral (JStr ''x'')] [] 0 = Inr (JStr ''0x'') \<and>
   ExcelFunctions_getFunctionArgValues [ALiteral (JStr ''x'')] [] 0 = Inr [JStr ''x''] \<and>
   ExcelFunctions_SUM [ALiteral (JStr ''x'')] [] 0 = Inr (JNum (Fin 0)) \<and>
   ExcelFunctions_static_SUM [JStr ''x''] = JNum (Fin 0) \<and>
   functions_SUM [ACell ''B1'' None] mixed_row 0 = Inr (JNum (Fin 0)) \<and>
   functions_SUM [ARange ''A1:C1'' None] mixed_row 0 = Inr (JNum (Fin 4)) \<and>
   ExcelFunctions_static_SUM [JNum (Fin 1), JStr ''x'', JNum (Fin 3)] = JNum (Fin 4)"
  by code_simp

text \<open>
  C8. \<open>getCellValue\<close> always returns a value and never throws; and it returns \<open>#REF!\<close>
  when the reference is not an optional dollar, letters, an optional dollar and digits, when
  the table index is outside the workbook, and when the workbook has no cell at the row and
  column of the reference, as past the end of a short row.
\<close>

theorem getCellValue_safe:
  "(\<exists>v. getCellValue ref data tableIndex = Inr v) \<and>
   (\<not> well_formed_reference ref \<longrightarrow> getCellValue ref data tableIndex = Inr (JStr ''#REF!'')) \<and>
   (tableIndex < 0 \<or> tableIndex \<ge> int (length data)
      \<longrightarrow> getCellValue ref data tableIndex = Inr (JStr ''#REF!'')) \<and>
   (\<forall>cr. parseCellReference ref = Some cr
      \<longrightarrow> cell_at (js_index data tableIndex) (row cr) (col cr) = None
      \<longrightarrow> getCellValue ref data tableIndex = Inr (JStr ''#REF!''))"
proof -
  have "parseCellReference ref = None" if "\<not> well_formed_reference ref"
    using that parseCellReference_well_formed [of ref] by blast
  then show ?thesis
    by (auto simp: getCellValue_def getCellValue_try_def cell_at_def js_index_def
          split: option.splits)
qed

theorem getCellValue_safe_witness:
  "\<not> well_formed_reference ''1A'' \<and> getCellValue ''1A'' mixed_row 0 = Inr (JStr ''#REF!'') \<and>
   getCellValue ''A1'' mixed_row (- 1) = Inr (JStr ''#REF!'') \<and>
   getCellValue ''A1'' mixed_row 1 = Inr (JStr ''#REF!'') \<and>
   parseCellReference ''D1'' =
     Some \<lparr>col = 3, row = 0, isAbsoluteCol = False, isAbsoluteRow = False\<rparr> \<and>
   cell_at (js_index mixed_row 0) 0 3 = None \<and>
   getCellValue ''D1'' mixed_row 0 = Inr (JStr ''#REF!'')"
proof -
  have "parseCellReference ''1A'' = None" by code_simp
  then have w: "\<not> well_formed_reference ''1A''"
    using parseCellReference_well_formed [of "''1A''"] by simp
  have l: "int (length mixed_row) = 1" by (simp add: mixed_row_def)
  have p: "parseCellReference ''D1'' =
      Some \<lparr>col = 3, row = 0, isAbsoluteCol = False, isAbsoluteRow = False\<rparr>"
    by code_simp
  have c: "cell_at (js_index mixed_row 0) 0 3 = None" by code_simp
  show ?thesis
    using w l p c
      getCellValue_safe [of "''1A''" mixed_row 0]
      getCellValue_safe [of "''A1''" mixed_row "- 1"]
      getCellValue_safe [of "''A1''" mixed_row 1]
      getCellValue_safe [of "''D1''" mixed_row 0]
    by simp
qed

text \<open>
  C9. \<open>AVERAGE\<close> of an empty list of values is 0: in the static function, and in the
  method of the library for every argument list whose flattened values are none, the empty
  argument list among them; the method returns 0 as well when no flattened value is numeric.
  \<open>MAX\<close> and \<open>MIN\<close> of a list in which no value is numeric return \<open>#ERROR!\<close>,
  in the static functions and, for the flattened values of the arguments, in the methods of
  the library.
\<close>

theorem empty_aggregates:
  "ExcelFunctions_static_AVERAGE [] = JNum (Fin 0) \<and>
   ExcelFunctions_AVERAGE [] allTables currentTableIndex = Inr (JNum (Fin 0)) \<and>
   (ExcelFunctions_getFunctionArgValues args allTables currentTableIndex = Inr [] \<longrightarrow>
      ExcelFunctions_AVERAGE args allTables currentTableIndex = Inr (JNum (Fin 0))) \<and>
   (\<forall>vs. ExcelFunctions_getFunctionArgValues args allTables currentTableIndex = Inr vs \<longrightarrow>
      (\<forall>v \<in> set vs. isNaN v) \<longrightarrow>
      ExcelFunctions_AVERAGE args allTables currentTableIndex = Inr (JNum (Fin 0))) \<and>
   ((\<forall>v \<in> set values. isNaN v) \<longrightarrow>
      ExcelFunctions_static_MAX values = JStr ''#ERROR!'' \<and>
      ExcelFunctions_static_MIN values = JStr ''#ERROR!'') \<and>
   (\<forall>vs. ExcelFunctions_getFunctionArgValues args allTables currentTableIndex = Inr vs \<longrightarrow>
      (\<forall>v \<in> set vs. isNaN v) \<longrightarrow>
      ExcelFunctions_MAX args allTables currentTableIndex = Inr (JStr ''#ERROR!'') \<and>
      ExcelFunctions_MIN args allTables currentTableIndex = Inr (JStr ''#ERROR!''))"
proof -
  have "numbers_of vs = []" if "\<forall>v \<in> set vs. isNaN v" for vs
    using that by (induction vs) (auto simp: numbers_of_def isNaN_def)
  moreover have "numbers_of [] = []"
    by (simp add: numbers_of_def)
  ultimately show ?thesis
    by (auto simp: ExcelFunctions_static_AVERAGE_def ExcelFunctions_AVERAGE_def
          ExcelFunctions_static_MAX_def ExcelFunctions_static_MIN_def
          ExcelFunctions_MAX_def ExcelFunctions_MIN_def)
qed

theorem empty_aggregates_witness:
  "ExcelFunctions_getFunctionArgValues [ARange ''A1:A1'' None] [[]] 0 = Inr [] \<and>
   ExcelFunctions_AVERAGE [ARange ''A1:A1'' None] [[]] 0 = Inr (JNum (Fin 0)) \<and>
   isNaN (JStr ''x'') \<and> isNaN JUndefined \<and>
   ExcelFunctions_static_MAX [JStr ''x'', JUndefined] = JStr ''#ERROR!'' \<and>
   ExcelFunctions_static_MIN [JStr ''x'', JUndefined] = JStr ''#ERROR!'' \<and>
   ExcelFunctions_getFunctionArgValues [ACell ''B1'' None, AOther ''text''] mixed_row 0
     = Inr [JStr ''x'', JUndefined] \<and>
   ExcelFunctions_AVERAGE [ACell ''B1'' None, AOther ''text''] mixed_row 0 = Inr (JNum (Fin 0)) \<and>
   ExcelFunctions_MAX [ACell ''B1'' None, AOther ''text''] mixed_row 0 = Inr (JStr ''#ERROR!'') \<and>
   ExcelFunctions_MIN [ACell ''B1'' None, AOther ''text''] mixed_row 0 = Inr (JStr ''#ERROR!'')"
proof -
  have e: "ExcelFunctions_getFunctionArgValues [ARange ''A1:A1'' None] [[]] 0 = Inr []"
    by code_simp
  have x: "isNaN (JStr ''x'')" and u: "isNaN JUndefined" by code_simp+
  then have n: "\<forall>v \<in> set [JStr ''x'', JUndefined]. isNaN v" by simp
  have f: "ExcelFunctions_getFunctionArgValues [ACell ''B1'' None, AOther ''text''] mixed_row 0
      = Inr [JStr ''x'', JUndefined]"
    by code_simp
  show ?thesis
    using e x u n f
      empty_aggregates [of "[[]]" 0 "[ARange ''A1:A1'' None]" "[]"]
      empty_aggregates [of mixed_row 0 "[ACell ''B1'' None, AOther ''text'']"
        "[JStr ''x'', JUndefined]"]
    by blast
qed

text \<open>
  C10. Reading a cell reference never evaluates a formula: for a cell whose resolved value
  is not set, \<open>getCellValue\<close> returns the raw value as it is, and so does \<open>evaluateAst\<close>
  on the reference node, also when the raw value is the text of a formula.
\<close>

theorem getCellValue_raw_value:
  assumes "parseCellReference ref = Some cr"
    and "cell_at (js_index data (table_index_of tableId currentTableIndex)) (row cr) (col cr)
           = Some c"
    and "resolvedValue c = JUndefined"
  shows "getCellValue ref data (table_index_of tableId currentTableIndex) = Inr (rawValue c) \<and>
         evaluateAst (ACell ref tableId) data currentTableIndex = Inr (rawValue c)"
  using assms
  by (auto simp: getCellValue_def getCellValue_try_def cell_at_def js_index_def cell_current_def
           split: option.splits if_splits)

theorem getCellValue_raw_value_witness:
  "parseCellReference ''B1'' =
     Some \<lparr>col = 1, row = 0, isAbsoluteCol = False, isAbsoluteRow = False\<rparr> \<and>
   cell_at (js_index [[[plain_cell (JStr ''=B1''), plain_cell (JStr ''=1+2'')]]]
              (table_index_of None 0)) 0 1 = Some (plain_cell (JStr ''=1+2'')) \<and>
   resolvedValue (plain_cell (JStr ''=1+2'')) = JUndefined \<and>
   getCellValue ''B1'' [[[plain_cell (JStr ''=B1''), plain_cell (JStr ''=1+2'')]]] 0
     = Inr (JStr ''=1+2'') \<and>
   evaluateAst (ACell ''B1'' None) [[[plain_cell (JStr ''=B1''), plain_cell (JStr ''=1+2'')]]] 0
     = Inr (JStr ''=1+2'')"
proof -
  let ?cr = "\<lparr>col = 1, row = 0, isAbsoluteCol = False, isAbsoluteRow = False\<rparr>"
  let ?wb = "[[[plain_cell (JStr ''=B1''), plain_cell (JStr ''=1+2'')]]]"
  have p: "parseCellReference ''B1'' = Some ?cr" by code_simp
  have c: "cell_at (js_index ?wb (table_index_of None 0)) (row ?cr) (col ?cr)
      = Some (plain_cell (JStr ''=1+2''))"
    by (simp add: cell_at_def js_index_def table_index_of_def)
  have u: "resolvedValue (plain_cell (JStr ''=1+2'')) = JUndefined"
    and r: "rawValue (plain_cell (JStr ''=1+2'')) = JStr ''=1+2''"
    by (simp_all add: plain_cell_def)
  show ?thesis
    using p c u r getCellValue_raw_value [OF p c u]
    by (simp add: table_index_of_def)
qed

end
